theory Spec2Isabelle
  imports Main "HOL-Library.Word"
begin

section \<open>Errors\<close>

text \<open>
  The library reports failures by throwing an E57Exception that carries an error code
  and a context string.  An exception is modelled by its error code; the context string
  (for instance the text "nodeType=..." of a failed downcast) is left out.  The codes are
  the ones named by the @throw clauses of IntegerNode.cpp and CompressedVectorReader.cpp.
\<close>

datatype ErrorCode =
    ErrorBadAPIArgument
  | ErrorBadCVPacket
  | ErrorBadChecksum
  | ErrorBadNodeDowncast
  | ErrorBufferDuplicatePathName
  | ErrorBufferSizeMismatch
  | ErrorConversionRequired
  | ErrorExpectingNumeric
  | ErrorExpectingUString
  | ErrorFileReadOnly
  | ErrorImageFileNotOpen
  | ErrorInternal
  | ErrorInvarianceViolation
  | ErrorPathUndefined
  | ErrorReadFailed
  | ErrorReaderNotOpen
  | ErrorReal64TooLarge
  | ErrorScaledValueNotRepresentable
  | ErrorSeekFailed
  | ErrorValueNotRepresentable
  | ErrorValueOutOfBounds

section \<open>Objects and handles\<close>

text \<open>
  Every API class (ImageFile, Node, IntegerNode, CompressedVectorNode,
  CompressedVectorReader) is a handle: an object whose only member is impl_, a shared
  pointer to an implementation object.  The implementation objects live in a store
  indexed by addresses, so that two handles can be compared for referencing the same
  object.  A shared pointer is never dangling, hence the stores are total.
\<close>

type_synonym addr = nat
type_synonym int64 = "64 word"

text \<open>The state of an ImageFile read by the functions below: isOpen(), isWritable(),
  readerCount() and writerCount().\<close>

record ImageFileImpl =
  imf_isOpen :: bool
  imf_isWriter :: bool
  imf_readerCount :: int
  imf_writerCount :: int

text \<open>The tag returned by Node::type().\<close>

datatype NodeType =
    TypeStructure
  | TypeVector
  | TypeCompressedVector
  | TypeInteger
  | TypeScaledInteger
  | TypeFloat
  | TypeString
  | TypeBlob

text \<open>
  The implementation classes derived from NodeImpl, one per node type.  An IntegerNodeImpl
  holds value, minimum and maximum, each an int64_t.  The members of the other classes are
  read by none of the functions embedded here and are left out.
\<close>

datatype NodeVariant =
    StructureNodeImpl
  | VectorNodeImpl
  | CompressedVectorNodeImpl
  | IntegerNodeImpl (impl_value: int64) (impl_minimum: int64) (impl_maximum: int64)
  | ScaledIntegerNodeImpl
  | FloatNodeImpl
  | StringNodeImpl
  | BlobNodeImpl

text \<open>The members common to all nodes that are read here: the ImageFile the node was
  declared against, and whether the node is attached to that ImageFile's tree.\<close>

record NodeImpl =
  node_destImageFile :: addr
  node_isAttached :: bool
  node_variant :: NodeVariant

text \<open>The state of a reader that its public functions read: the open flag and the
  CompressedVectorNode being read.\<close>

record CompressedVectorReaderImpl =
  rd_isOpen :: bool
  rd_cVector :: addr

text \<open>The stores.  nodes_used is the first address at which no node has been created
  yet: a node created by new is put there.\<close>

record world =
  files :: "addr \<Rightarrow> ImageFileImpl"
  nodes :: "addr \<Rightarrow> NodeImpl"
  nodes_used :: addr
  readers :: "addr \<Rightarrow> CompressedVectorReaderImpl"

datatype ImageFile = ImageFile (ImageFile_impl: addr)
datatype Node = Node (Node_impl: addr)
datatype IntegerNode = IntegerNode (IntegerNode_impl: addr)
datatype CompressedVectorNode = CompressedVectorNode (CompressedVectorNode_impl: addr)
datatype CompressedVectorReader = CompressedVectorReader (CompressedVectorReader_impl: addr)

text \<open>A function of the API either returns a value or throws, and leaves a state behind.\<close>

type_synonym 'a outcome = "(ErrorCode + 'a) \<times> world"

section \<open>Accessors\<close>

text \<open>
  The accessors of the handles forward to the implementation object
  (\<^verbatim>\<open>return impl_->value();\<close> and so on).  The bodies of the implementation
  classes are not among the sources; each accessor is taken to read the member it is named
  after.  CompressedVectorReader::checkInvariant calls isOpen(), compressedVectorNode() and
  destImageFile() before it tests whether the ImageFile is open and returns if it is not, and
  IntegerNode::checkInvariant calls value(), minimum() and maximum() only after that test, so
  no accessor is given a failing branch.
\<close>

definition ImageFile_isOpen :: "world \<Rightarrow> ImageFile \<Rightarrow> bool" where
  "ImageFile_isOpen w imf = imf_isOpen (files w (ImageFile_impl imf))"


definition ImageFile_readerCount :: "world \<Rightarrow> ImageFile \<Rightarrow> int" where
  "ImageFile_readerCount w imf = imf_readerCount (files w (ImageFile_impl imf))"

definition ImageFile_writerCount :: "world \<Rightarrow> ImageFile \<Rightarrow> int" where
  "ImageFile_writerCount w imf = imf_writerCount (files w (ImageFile_impl imf))"

text \<open>Modelled from the spec: NodeImpl::type() of each implementation class, which is not
  among the sources.  The spec has a node carry exactly one variant tag.\<close>

fun NodeVariant_type :: "NodeVariant \<Rightarrow> NodeType" where
  "NodeVariant_type StructureNodeImpl = TypeStructure"
| "NodeVariant_type VectorNodeImpl = TypeVector"
| "NodeVariant_type CompressedVectorNodeImpl = TypeCompressedVector"
| "NodeVariant_type (IntegerNodeImpl v mn mx) = TypeInteger"
| "NodeVariant_type ScaledIntegerNodeImpl = TypeScaledInteger"
| "NodeVariant_type FloatNodeImpl = TypeFloat"
| "NodeVariant_type StringNodeImpl = TypeString"
| "NodeVariant_type BlobNodeImpl = TypeBlob"

definition Node_type :: "world \<Rightarrow> Node \<Rightarrow> NodeType" where
  "Node_type w n = NodeVariant_type (node_variant (nodes w (Node_impl n)))"






text \<open>
  An IntegerNode handle holds a shared pointer to an IntegerNodeImpl, by its C++ type.
  In the store this is a property of the handle and the state.
\<close>

definition IntegerNode_wellTyped :: "world \<Rightarrow> IntegerNode \<Rightarrow> bool" where
  "IntegerNode_wellTyped w i =
     (NodeVariant_type (node_variant (nodes w (IntegerNode_impl i))) = TypeInteger)"

section \<open>IntegerNode: upcast and downcast\<close>

text \<open>IntegerNode::operator Node(): \<^verbatim>\<open>return Node( impl_ );\<close>\<close>

definition IntegerNode_to_Node :: "IntegerNode \<Rightarrow> ErrorCode + Node" where
  "IntegerNode_to_Node i = Inr (Node (IntegerNode_impl i))"

text \<open>IntegerNode::IntegerNode(const Node &n): throws ErrorBadNodeDowncast unless
  n.type() is TypeInteger, and otherwise takes over the pointer of n.\<close>

definition IntegerNode_from_Node :: "world \<Rightarrow> Node \<Rightarrow> IntegerNode outcome" where
  "IntegerNode_from_Node w n =
     (if Node_type w n \<noteq> TypeInteger then (Inl ErrorBadNodeDowncast, w)
      else (Inr (IntegerNode (Node_impl n)), w))"

section \<open>IntegerNode: construction and invariant\<close>






section \<open>CompressedVectorReader: invariant\<close>

definition CompressedVectorReader_isOpen :: "world \<Rightarrow> CompressedVectorReader \<Rightarrow> bool" where
  "CompressedVectorReader_isOpen w r = rd_isOpen (readers w (CompressedVectorReader_impl r))"

definition CompressedVectorReader_compressedVectorNode ::
  "world \<Rightarrow> CompressedVectorReader \<Rightarrow> CompressedVectorNode" where
  "CompressedVectorReader_compressedVectorNode w r =
     CompressedVectorNode (rd_cVector (readers w (CompressedVectorReader_impl r)))"

definition CompressedVectorNode_destImageFile :: "world \<Rightarrow> CompressedVectorNode \<Rightarrow> ImageFile" where
  "CompressedVectorNode_destImageFile w cv =
     ImageFile (node_destImageFile (nodes w (CompressedVectorNode_impl cv)))"

definition CompressedVectorNode_isAttached :: "world \<Rightarrow> CompressedVectorNode \<Rightarrow> bool" where
  "CompressedVectorNode_isAttached w cv = node_isAttached (nodes w (CompressedVectorNode_impl cv))"

text \<open>CompressedVectorReader::checkInvariant(bool): two early returns, then three clauses,
  each throwing ErrorInvarianceViolation.  The parameter is unnamed and unused.\<close>

definition CompressedVectorReader_checkInvariant ::
  "world \<Rightarrow> CompressedVectorReader \<Rightarrow> bool \<Rightarrow> unit outcome" where
  "CompressedVectorReader_checkInvariant w r doRecurse =
     (if \<not> CompressedVectorReader_isOpen w r then (Inr (), w)
      else
        let cv = CompressedVectorReader_compressedVectorNode w r;
            imf = CompressedVectorNode_destImageFile w cv
        in
          if \<not> ImageFile_isOpen w imf then (Inr (), w)
          else if \<not> CompressedVectorNode_isAttached w cv then (Inl ErrorInvarianceViolation, w)
          else if ImageFile_readerCount w imf < 1 then (Inl ErrorInvarianceViolation, w)
          else if ImageFile_writerCount w imf \<noteq> 0 then (Inl ErrorInvarianceViolation, w)
          else (Inr (), w))"

section \<open>CompressedVectorReader: close and read\<close>






section \<open>Example states\<close>

text \<open>
  One writable ImageFile at address 0 with one reader and no writer.  Node 0 is an
  IntegerNode of value 5 with bounds 0 and 10, node 2 an attached CompressedVectorNode,
  the other nodes are StringNodes.  Reader 0 is open and reads node 2.
\<close>

definition example_file :: ImageFileImpl where
  "example_file =
     \<lparr>imf_isOpen = True, imf_isWriter = True, imf_readerCount = 1, imf_writerCount = 0\<rparr>"

definition example_nodes :: "addr \<Rightarrow> NodeImpl" where
  "example_nodes a =
     (if a = 0 then
        \<lparr>node_destImageFile = 0, node_isAttached = False, node_variant = IntegerNodeImpl 5 0 10\<rparr>
      else if a = 2 then
        \<lparr>node_destImageFile = 0, node_isAttached = True, node_variant = CompressedVectorNodeImpl\<rparr>
      else
        \<lparr>node_destImageFile = 0, node_isAttached = False, node_variant = StringNodeImpl\<rparr>)"

definition example_world :: world where
  "example_world =
     \<lparr>files = (\<lambda>_. example_file), nodes = example_nodes, nodes_used = 4,
      readers = (\<lambda>_. \<lparr>rd_isOpen = True, rd_cVector = 2\<rparr>)\<rparr>"

text \<open>The same state with the ImageFile closed, with a writer registered, with reader 0
  closed, and with node 0 holding the value 11 outside its bounds 0 and 10.\<close>

definition example_world_closed :: world where
  "example_world_closed = example_world\<lparr>files := (\<lambda>_. example_file\<lparr>imf_isOpen := False\<rparr>)\<rparr>"

definition example_world_writer :: world where
  "example_world_writer = example_world\<lparr>files := (\<lambda>_. example_file\<lparr>imf_writerCount := 1\<rparr>)\<rparr>"

definition example_world_reader_closed :: world where
  "example_world_reader_closed =
     example_world\<lparr>readers := (\<lambda>_. \<lparr>rd_isOpen = False, rd_cVector = 2\<rparr>)\<rparr>"






section \<open>Downcast and upcast\<close>

lemma Node_type_example_0: "Node_type example_world (Node 0) = TypeInteger"
  by (simp add: Node_type_def example_world_def example_nodes_def)

lemma Node_type_example_3: "Node_type example_world (Node 3) = TypeString"
  by (simp add: Node_type_def example_world_def example_nodes_def)

lemma IntegerNode_from_Node_wellTyped:
  assumes "IntegerNode_from_Node w n = (Inr i, w')"
  shows "IntegerNode_wellTyped w' i"
  using assms
  by (auto simp: IntegerNode_from_Node_def IntegerNode_wellTyped_def Node_type_def
      split: if_splits)

lemma IntegerNode_from_Node_TypeInteger:
  assumes "Node_type w n = TypeInteger"
  shows "IntegerNode_from_Node w n = (Inr (IntegerNode (Node_impl n)), w)"
  using assms by (simp add: IntegerNode_from_Node_def)

lemma IntegerNode_from_Node_other:
  assumes "Node_type w n \<noteq> TypeInteger"
  shows "IntegerNode_from_Node w n = (Inl ErrorBadNodeDowncast, w)"
  using assms by (simp add: IntegerNode_from_Node_def)

text \<open>
  Claim C9.  Downcasting a generic Node handle n to IntegerNode succeeds exactly when the tag
  of n is TypeInteger; the handle obtained then holds the pointer of n.  Otherwise the
  downcast throws ErrorBadNodeDowncast.  In both cases the state, and so the node tree, is
  the one before the call.
\<close>

theorem IntegerNode_downcast_iff_TypeInteger:
  "((\<exists>i w'. IntegerNode_from_Node w n = (Inr i, w')) \<longleftrightarrow> Node_type w n = TypeInteger)
   \<and> (Node_type w n = TypeInteger \<longrightarrow>
        IntegerNode_from_Node w n = (Inr (IntegerNode (Node_impl n)), w))
   \<and> (Node_type w n \<noteq> TypeInteger \<longrightarrow>
        IntegerNode_from_Node w n = (Inl ErrorBadNodeDowncast, w))
   \<and> snd (IntegerNode_from_Node w n) = w"
proof (cases "Node_type w n = TypeInteger")
  case True
  from IntegerNode_from_Node_TypeInteger [OF True] True show ?thesis by simp
next
  case False
  from IntegerNode_from_Node_other [OF False] False show ?thesis by simp
qed

theorem IntegerNode_downcast_iff_TypeInteger_witness:
  "Node_type example_world (Node 0) = TypeInteger
   \<and> IntegerNode_from_Node example_world (Node 0) = (Inr (IntegerNode 0), example_world)
   \<and> Node_type example_world (Node 3) \<noteq> TypeInteger
   \<and> IntegerNode_from_Node example_world (Node 3) = (Inl ErrorBadNodeDowncast, example_world)"
  using IntegerNode_downcast_iff_TypeInteger [of example_world "Node 0"]
    IntegerNode_downcast_iff_TypeInteger [of example_world "Node 3"]
  by (simp add: Node_type_example_0 Node_type_example_3)

text \<open>
  Claim C10.  Upcasting an IntegerNode handle i never throws, and downcasting the Node handle
  it yields succeeds and gives back a handle equal to i: it references the same
  implementation object.  The state is untouched.
\<close>

theorem IntegerNode_upcast_downcast:
  assumes "IntegerNode_wellTyped w i"
  shows "\<exists>n. IntegerNode_to_Node i = Inr n
           \<and> Node_impl n = IntegerNode_impl i
           \<and> IntegerNode_from_Node w n = (Inr i, w)"
  using assms
  by (simp add: IntegerNode_to_Node_def IntegerNode_from_Node_def IntegerNode_wellTyped_def
      Node_type_def)

theorem IntegerNode_upcast_downcast_witness:
  "IntegerNode_wellTyped example_world (IntegerNode 0)
   \<and> (\<exists>n. IntegerNode_to_Node (IntegerNode 0) = Inr n
           \<and> Node_impl n = IntegerNode_impl (IntegerNode 0)
           \<and> IntegerNode_from_Node example_world n = (Inr (IntegerNode 0), example_world))"
proof -
  have wt: "IntegerNode_wellTyped example_world (IntegerNode 0)"
    by (simp add: IntegerNode_wellTyped_def example_world_def example_nodes_def)
  from IntegerNode_upcast_downcast [OF wt] wt show ?thesis by simp
qed

section \<open>Bounds of an IntegerNode\<close>



















section \<open>The invariant of a reader\<close>

lemma CompressedVectorReader_checkInvariant_reader_closed:
  assumes "\<not> CompressedVectorReader_isOpen w r"
  shows "CompressedVectorReader_checkInvariant w r doRecurse = (Inr (), w)"
  using assms by (simp add: CompressedVectorReader_checkInvariant_def)

lemma CompressedVectorReader_checkInvariant_file_closed:
  assumes "\<not> ImageFile_isOpen w (CompressedVectorNode_destImageFile w
              (CompressedVectorReader_compressedVectorNode w r))"
  shows "CompressedVectorReader_checkInvariant w r doRecurse = (Inr (), w)"
  using assms by (simp add: CompressedVectorReader_checkInvariant_def Let_def)

lemma CompressedVectorReader_checkInvariant_open:
  assumes "CompressedVectorReader_isOpen w r"
    and "ImageFile_isOpen w (CompressedVectorNode_destImageFile w
              (CompressedVectorReader_compressedVectorNode w r))"
  shows "CompressedVectorReader_checkInvariant w r doRecurse =
     (if CompressedVectorNode_isAttached w (CompressedVectorReader_compressedVectorNode w r)
         \<and> 1 \<le> ImageFile_readerCount w (CompressedVectorNode_destImageFile w
                   (CompressedVectorReader_compressedVectorNode w r))
         \<and> ImageFile_writerCount w (CompressedVectorNode_destImageFile w
                   (CompressedVectorReader_compressedVectorNode w r)) = 0
      then (Inr (), w) else (Inl ErrorInvarianceViolation, w))"
  using assms by (auto simp: CompressedVectorReader_checkInvariant_def Let_def)

text \<open>
  Claim C8.  CompressedVectorReader::checkInvariant returns without throwing when the
  destination ImageFile is closed, and also when the reader itself is closed.  When the
  reader and the ImageFile are open, it throws ErrorInvarianceViolation exactly when the
  CompressedVectorNode is not attached, or the reader count of the ImageFile is below 1, or
  its writer count is not 0, and it returns otherwise.  The state after the call is the
  state before it.
\<close>

theorem CompressedVectorReader_checkInvariant_spec:
  "(let cv = CompressedVectorReader_compressedVectorNode w r;
        imf = CompressedVectorNode_destImageFile w cv;
        res = CompressedVectorReader_checkInvariant w r doRecurse
    in (\<not> ImageFile_isOpen w imf \<longrightarrow> res = (Inr (), w))
     \<and> (\<not> CompressedVectorReader_isOpen w r \<longrightarrow> res = (Inr (), w))
     \<and> (CompressedVectorReader_isOpen w r \<and> ImageFile_isOpen w imf \<longrightarrow>
          (res = (Inl ErrorInvarianceViolation, w)) =
            (\<not> CompressedVectorNode_isAttached w cv \<or> ImageFile_readerCount w imf < 1
             \<or> ImageFile_writerCount w imf \<noteq> 0)
          \<and> (res = (Inr (), w)) =
            (CompressedVectorNode_isAttached w cv \<and> 1 \<le> ImageFile_readerCount w imf
             \<and> ImageFile_writerCount w imf = 0))
     \<and> snd res = w)"
proof -
  let ?cv = "CompressedVectorReader_compressedVectorNode w r"
  let ?imf = "CompressedVectorNode_destImageFile w ?cv"
  let ?res = "CompressedVectorReader_checkInvariant w r doRecurse"
  consider (reader_closed) "\<not> CompressedVectorReader_isOpen w r"
    | (file_closed) "CompressedVectorReader_isOpen w r" "\<not> ImageFile_isOpen w ?imf"
    | (both_open) "CompressedVectorReader_isOpen w r" "ImageFile_isOpen w ?imf"
    by blast
  then show ?thesis
  proof cases
    case reader_closed
    from CompressedVectorReader_checkInvariant_reader_closed [OF reader_closed, of doRecurse]
      reader_closed
    show ?thesis by (simp add: Let_def)
  next
    case file_closed
    from CompressedVectorReader_checkInvariant_file_closed [OF file_closed(2), of doRecurse]
      file_closed
    show ?thesis by (simp add: Let_def)
  next
    case both_open
    from CompressedVectorReader_checkInvariant_open [OF both_open, of doRecurse] both_open
    show ?thesis by (auto simp: Let_def)
  qed
qed

lemma example_reader_facts:
  "CompressedVectorReader_compressedVectorNode example_world (CompressedVectorReader 0)
     = CompressedVectorNode 2"
  "CompressedVectorNode_destImageFile example_world (CompressedVectorNode 2) = ImageFile 0"
  "CompressedVectorReader_isOpen example_world (CompressedVectorReader 0)"
  "ImageFile_isOpen example_world (ImageFile 0)"
  "CompressedVectorNode_isAttached example_world (CompressedVectorNode 2)"
  "ImageFile_readerCount example_world (ImageFile 0) = 1"
  "ImageFile_writerCount example_world (ImageFile 0) = 0"
  by (simp_all add: CompressedVectorReader_compressedVectorNode_def
      CompressedVectorNode_destImageFile_def CompressedVectorReader_isOpen_def
      ImageFile_isOpen_def CompressedVectorNode_isAttached_def ImageFile_readerCount_def
      ImageFile_writerCount_def example_world_def example_nodes_def example_file_def)

lemma example_writer_facts:
  "CompressedVectorReader_compressedVectorNode example_world_writer (CompressedVectorReader 0)
     = CompressedVectorNode 2"
  "CompressedVectorNode_destImageFile example_world_writer (CompressedVectorNode 2) = ImageFile 0"
  "CompressedVectorReader_isOpen example_world_writer (CompressedVectorReader 0)"
  "ImageFile_isOpen example_world_writer (ImageFile 0)"
  "ImageFile_writerCount example_world_writer (ImageFile 0) = 1"
  by (simp_all add: CompressedVectorReader_compressedVectorNode_def
      CompressedVectorNode_destImageFile_def CompressedVectorReader_isOpen_def
      ImageFile_isOpen_def ImageFile_writerCount_def example_world_writer_def
      example_world_def example_nodes_def example_file_def)

lemma example_closed_facts:
  "CompressedVectorReader_compressedVectorNode example_world_closed (CompressedVectorReader 0)
     = CompressedVectorNode 2"
  "CompressedVectorNode_destImageFile example_world_closed (CompressedVectorNode 2) = ImageFile 0"
  "CompressedVectorReader_isOpen example_world_closed (CompressedVectorReader 0)"
  "\<not> ImageFile_isOpen example_world_closed (ImageFile 0)"
  by (simp_all add: CompressedVectorReader_compressedVectorNode_def
      CompressedVectorNode_destImageFile_def CompressedVectorReader_isOpen_def
      ImageFile_isOpen_def example_world_closed_def
      example_world_def example_nodes_def example_file_def)

lemma example_reader_closed_facts:
  "CompressedVectorReader_compressedVectorNode example_world_reader_closed
     (CompressedVectorReader 0) = CompressedVectorNode 2"
  "CompressedVectorNode_destImageFile example_world_reader_closed (CompressedVectorNode 2)
     = ImageFile 0"
  "\<not> CompressedVectorReader_isOpen example_world_reader_closed (CompressedVectorReader 0)"
  "ImageFile_isOpen example_world_reader_closed (ImageFile 0)"
  by (simp_all add: CompressedVectorReader_compressedVectorNode_def
      CompressedVectorNode_destImageFile_def CompressedVectorReader_isOpen_def
      ImageFile_isOpen_def example_world_reader_closed_def
      example_world_def example_nodes_def example_file_def)

theorem CompressedVectorReader_checkInvariant_spec_witness:
  "\<not> ImageFile_isOpen example_world_closed (ImageFile 0)
   \<and> CompressedVectorReader_checkInvariant example_world_closed (CompressedVectorReader 0) False
       = (Inr (), example_world_closed)
   \<and> \<not> CompressedVectorReader_isOpen example_world_reader_closed (CompressedVectorReader 0)
   \<and> CompressedVectorReader_checkInvariant example_world_reader_closed
       (CompressedVectorReader 0) False = (Inr (), example_world_reader_closed)
   \<and> CompressedVectorReader_isOpen example_world (CompressedVectorReader 0)
   \<and> ImageFile_isOpen example_world (ImageFile 0)
   \<and> CompressedVectorReader_checkInvariant example_world (CompressedVectorReader 0) False
       = (Inr (), example_world)
   \<and> CompressedVectorReader_isOpen example_world_writer (CompressedVectorReader 0)
   \<and> ImageFile_isOpen example_world_writer (ImageFile 0)
   \<and> ImageFile_writerCount example_world_writer (ImageFile 0) \<noteq> 0
   \<and> CompressedVectorReader_checkInvariant example_world_writer (CompressedVectorReader 0) True
       = (Inl ErrorInvarianceViolation, example_world_writer)"
  using CompressedVectorReader_checkInvariant_spec
           [of example_world_closed "CompressedVectorReader 0" False]
        CompressedVectorReader_checkInvariant_spec
           [of example_world_reader_closed "CompressedVectorReader 0" False]
        CompressedVectorReader_checkInvariant_spec
           [of example_world "CompressedVectorReader 0" False]
        CompressedVectorReader_checkInvariant_spec
           [of example_world_writer "CompressedVectorReader 0" True]
  by (simp add: Let_def example_reader_facts example_writer_facts example_closed_facts
      example_reader_closed_facts)

section \<open>Closing a reader\<close>














end
